theory Spec2Isabelle
  imports Main "HOL-Library.Sublist"
begin

section \<open>The ZooKeeper provider: sequential znodes and the znode data source\<close>

text \<open>
  The provider's functions are glue between two external collaborators: the Terraform
  plugin SDK (\<open>schema.ResourceData\<close>, \<open>schema.Schema\<close>, \<open>diag\<close>) and the ZooKeeper
  client (\<open>client.Client\<close>). A Go function that receives \<open>rscData *schema.ResourceData\<close>
  and \<open>prvClient\<close> mutates the first and talks to ZooKeeper through the second; its model
  takes both as values and returns both, together with what the Go function returns.
\<close>

subsection \<open>Values of the client package\<close>

type_synonym bytes = string

text \<open>A Go \<open>error\<close>, by the message that \<open>err.Error()\<close> and the verb \<open>%v\<close> print.\<close>

datatype go_error = GoError (message: string)

text \<open>
  Modelled from the spec: the type \<open>client.ZNode\<close> (its declaration is not among the
  sources). A path, a byte sequence and the stat metadata, a mapping from field name to
  integer.
\<close>

record ZNode =
  Path :: string
  Data :: bytes
  Stat :: "(string \<times> int) list"

subsection \<open>The SDK's schema and resource data, as far as the provider uses them\<close>

datatype ValueType = TypeString | TypeInt | TypeMap

text \<open>The fields of \<open>schema.Schema\<close> that the provider sets (\<open>Description\<close> is documentation).\<close>

record Schema =
  Type :: ValueType
  Optional :: bool
  Required :: bool
  Computed :: bool
  ForceNew :: bool
  ConflictsWith :: "string list"
  Elem :: "ValueType option"

text \<open>A Go map literal \<open>map[string]*schema.Schema{...}\<close>, in the order it is written.\<close>

type_synonym SchemaMap = "(string \<times> Schema) list"

text \<open>An \<open>interface{}\<close> value read from or written to the resource data.\<close>

datatype fvalue = VString string | VInt int | VMap "(string \<times> int) list"

fun hasType :: "fvalue \<Rightarrow> ValueType \<Rightarrow> bool" where
  "hasType (VString _) t = (t = TypeString)"
| "hasType (VInt _) t = (t = TypeInt)"
| "hasType (VMap _) t = (t = TypeMap)"

fun zeroValue :: "ValueType \<Rightarrow> fvalue" where
  "zeroValue TypeString = VString []"
| "zeroValue TypeInt = VInt 0"
| "zeroValue TypeMap = VMap []"

record ResourceData =
  Id_rd :: string
  attrs :: "string \<rightharpoonup> fvalue"
  schema :: SchemaMap
  isNewResource :: bool

definition SetId :: "ResourceData \<Rightarrow> string \<Rightarrow> ResourceData" where
  "SetId d v = d\<lparr>Id_rd := v\<rparr>"

definition MarkNewResource :: "ResourceData \<Rightarrow> ResourceData" where
  "MarkNewResource d = d\<lparr>isNewResource := True\<rparr>"

text \<open>
  \<open>rscData.Get(key)\<close>: the stored value, the zero value of the attribute's type when
  nothing is stored, and \<open>nil\<close> (here \<open>None\<close>) for a key that the schema does not have.
\<close>

definition Get_rd :: "ResourceData \<Rightarrow> string \<Rightarrow> fvalue option" where
  "Get_rd d key =
     (case map_of (schema d) key of
        None \<Rightarrow> None
      | Some s \<Rightarrow> (case attrs d key of None \<Rightarrow> Some (zeroValue (Type s)) | Some v \<Rightarrow> Some v))"

text \<open>The type assertion \<open>x.(string)\<close>: \<open>None\<close> stands for the panic of a failed assertion.\<close>

fun asString :: "fvalue option \<Rightarrow> string option" where
  "asString (Some (VString s)) = Some s"
| "asString _ = None"

text \<open>
  \<open>rscData.Set(key, value)\<close>: the write is refused, with an error and no change, when the
  schema has no such key or the value is not of the attribute's type.
\<close>

definition Set_rd :: "ResourceData \<Rightarrow> string \<Rightarrow> fvalue \<Rightarrow> go_error + ResourceData" where
  "Set_rd d key v =
     (case map_of (schema d) key of
        None \<Rightarrow> Inl (GoError (''Invalid address to set: '' @ key))
      | Some s \<Rightarrow>
          if hasType v (Type s) then Inr (d\<lparr>attrs := (attrs d)(key \<mapsto> v)\<rparr>)
          else Inl (GoError (key @ '': value of another type'')))"

subsection \<open>Diagnostics\<close>

datatype Severity = Error | Warning

record Diagnostic =
  Severity :: Severity
  Summary :: string
  Detail :: string

type_synonym Diagnostics = "Diagnostic list"

text \<open>
  \<open>diag.Errorf(format, a...)\<close> is one error diagnostic whose summary is
  \<open>fmt.Sprintf(format, a...)\<close>; the caller of \<open>Errorf\<close> below passes the formatted text.
  \<open>diag.FromErr(err)\<close> is one error diagnostic whose summary is \<open>err.Error()\<close>.
\<close>

definition Errorf :: "string \<Rightarrow> Diagnostics" where
  "Errorf text = [\<lparr>Severity = Error, Summary = text, Detail = []\<rparr>]"

definition FromErr :: "go_error \<Rightarrow> Diagnostics" where
  "FromErr err = [\<lparr>Severity = Error, Summary = message err, Detail = []\<rparr>]"

text \<open>\<open>'%s'\<close> in a format string: the argument between two apostrophes.\<close>

definition quoted :: "string \<Rightarrow> string" where
  "quoted s = [CHR 0x27] @ s @ [CHR 0x27]"

subsection \<open>The ZooKeeper client\<close>

datatype zk_call = CreateSequentialCall string bytes | ReadCall string

text \<open>
  The client is the door to an external service: what it answers is not decided by the
  provider. A client value holds the answers the service gives (any function) and the
  list of the calls made so far; a call appends itself to that list. The argument
  \<open>prvClient\<close> has the type of the client in the model, so the assertion
  \<open>prvClient.(*client.Client)\<close> has no failing branch.
\<close>

record Client =
  answerCreateSequential :: "string \<Rightarrow> bytes \<Rightarrow> go_error + ZNode"
  answerRead :: "string \<Rightarrow> go_error + ZNode"
  calls :: "zk_call list"

definition CreateSequential :: "Client \<Rightarrow> string \<Rightarrow> bytes \<Rightarrow> (go_error + ZNode) \<times> Client" where
  "CreateSequential c pathPrefix dat =
     (answerCreateSequential c pathPrefix dat,
      c\<lparr>calls := calls c @ [CreateSequentialCall pathPrefix dat]\<rparr>)"

definition Read :: "Client \<Rightarrow> string \<Rightarrow> (go_error + ZNode) \<times> Client" where
  "Read c path = (answerRead c path, c\<lparr>calls := calls c @ [ReadCall path]\<rparr>)"

subsection \<open>Parts of the two packages that the sources do not hold\<close>

text \<open>
  A Go function can end in a panic (a failed type assertion) instead of returning.
\<close>

datatype 'a outcome = Panic | Returned (result: 'a)

text \<open>
  Package \<open>provider\<close> (the data source and the current sequential znode resource) calls
  three functions of its own package that are not among the sources. They are taken as
  parameters: \<open>getDataBytesFromResourceData\<close> reads the content to store, or fails;
  \<open>setAttributesFromZNode\<close> writes a znode into the resource data and returns the
  diagnostics; \<open>statSchema\<close> is the schema of the attribute \<open>stat\<close>.
\<close>

record Provider =
  getDataBytesFromResourceData :: "ResourceData \<Rightarrow> go_error + bytes"
  setAttributesFromZNode :: "ResourceData \<Rightarrow> ZNode \<Rightarrow> Diagnostics \<Rightarrow> ResourceData \<times> Diagnostics"
  statSchema :: Schema

text \<open>
  Package \<open>zookeeper\<close> (the file \<open>provider/resource_sequential_znode.go\<close>) names its
  attributes by four constants and calls two functions, none of them among the sources:
  parameters as well. (Go refuses a map literal with two equal constant keys, so the four
  names differ; no statement below needs that.)
\<close>

record Zookeeper =
  fieldPathPrefix :: string
  fieldData :: string
  fieldPath :: string
  fieldStat :: string
  getFieldDataFromResourceData :: "ResourceData \<Rightarrow> bytes"
  setResourceDataFromZNode :: "ResourceData \<Rightarrow> ZNode \<Rightarrow> Diagnostics \<Rightarrow> ResourceData \<times> Diagnostics"

subsection \<open>Schemas\<close>

text \<open>
  Each definition is the \<open>Schema\<close> field of the \<open>schema.Resource\<close> that the Go function
  of the same name returns; the other fields of that value name the functions below.
\<close>

definition datasourceZNode :: "Provider \<Rightarrow> SchemaMap" where
  "datasourceZNode env =
     [(''path'', \<lparr>Type = TypeString, Optional = False, Required = True, Computed = False,
         ForceNew = False, ConflictsWith = [], Elem = None\<rparr>),
      (''data'', \<lparr>Type = TypeString, Optional = False, Required = False, Computed = True,
         ForceNew = False, ConflictsWith = [], Elem = None\<rparr>),
      (''data_base64'', \<lparr>Type = TypeString, Optional = False, Required = False, Computed = True,
         ForceNew = False, ConflictsWith = [], Elem = None\<rparr>),
      (''stat'', statSchema env)]"

definition resourceSeqZNode :: "Provider \<Rightarrow> SchemaMap" where
  "resourceSeqZNode env =
     [(''path_prefix'', \<lparr>Type = TypeString, Optional = False, Required = True, Computed = False,
         ForceNew = True, ConflictsWith = [], Elem = None\<rparr>),
      (''data'', \<lparr>Type = TypeString, Optional = True, Required = False, Computed = True,
         ForceNew = False, ConflictsWith = [''data_base64''], Elem = None\<rparr>),
      (''data_base64'', \<lparr>Type = TypeString, Optional = True, Required = False, Computed = True,
         ForceNew = False, ConflictsWith = [''data''], Elem = None\<rparr>),
      (''path'', \<lparr>Type = TypeString, Optional = False, Required = False, Computed = True,
         ForceNew = False, ConflictsWith = [], Elem = None\<rparr>),
      (''stat'', statSchema env)]"

definition resourceSeqZNode_zk :: "Zookeeper \<Rightarrow> SchemaMap" where
  "resourceSeqZNode_zk pkg =
     [(fieldPathPrefix pkg, \<lparr>Type = TypeString, Optional = False, Required = True,
         Computed = False, ForceNew = True, ConflictsWith = [], Elem = None\<rparr>),
      (fieldData pkg, \<lparr>Type = TypeString, Optional = True, Required = False,
         Computed = False, ForceNew = False, ConflictsWith = [], Elem = None\<rparr>),
      (fieldPath pkg, \<lparr>Type = TypeString, Optional = False, Required = False,
         Computed = True, ForceNew = False, ConflictsWith = [], Elem = None\<rparr>),
      (fieldStat pkg, \<lparr>Type = TypeMap, Optional = False, Required = False,
         Computed = True, ForceNew = False, ConflictsWith = [], Elem = Some TypeInt\<rparr>)]"

subsection \<open>Creating a sequential znode\<close>

definition resourceSeqZNodeCreate ::
  "Provider \<Rightarrow> ResourceData \<Rightarrow> Client \<Rightarrow> (ResourceData \<times> Client \<times> Diagnostics) outcome" where
  "resourceSeqZNodeCreate env rscData zkClient =
     (case asString (Get_rd rscData ''path_prefix'') of
        None \<Rightarrow> Panic
      | Some znodePathPrefix \<Rightarrow>
          (case getDataBytesFromResourceData env rscData of
             Inl err \<Rightarrow> Returned (rscData, zkClient, FromErr err)
           | Inr dataBytes \<Rightarrow>
               (case CreateSequential zkClient znodePathPrefix dataBytes of
                  (Inl err, zkClient') \<Rightarrow>
                    Returned (rscData, zkClient',
                      Errorf (''Failed to create Sequential ZNode '' @ quoted znodePathPrefix
                              @ '': '' @ message err))
                | (Inr znode, zkClient') \<Rightarrow>
                    (case setAttributesFromZNode env
                            (MarkNewResource (SetId rscData (Path znode))) znode [] of
                       (rscData', diags) \<Rightarrow> Returned (rscData', zkClient', diags)))))"

text \<open>The same function in package \<open>zookeeper\<close>; \<open>diags\<close> starts as the nil slice.\<close>

definition resourceSeqZNodeCreate_zk ::
  "Zookeeper \<Rightarrow> ResourceData \<Rightarrow> Client \<Rightarrow> (ResourceData \<times> Client \<times> Diagnostics) outcome" where
  "resourceSeqZNodeCreate_zk pkg rscData zkClient =
     (let diags = [] in
      case asString (Get_rd rscData (fieldPathPrefix pkg)) of
        None \<Rightarrow> Panic
      | Some znodePathPrefix \<Rightarrow>
          (case CreateSequential zkClient znodePathPrefix
                  (getFieldDataFromResourceData pkg rscData) of
             (Inl err, zkClient') \<Rightarrow>
               Returned (rscData, zkClient',
                 diags @ [\<lparr>Severity = Error,
                           Summary = ''Failed to create Sequential ZNode ''
                                     @ quoted znodePathPrefix @ '': '' @ message err,
                           Detail = []\<rparr>])
           | (Inr znode, zkClient') \<Rightarrow>
               (case setResourceDataFromZNode pkg
                       (MarkNewResource (SetId rscData (Path znode))) znode diags of
                  (rscData', diags') \<Rightarrow> Returned (rscData', zkClient', diags'))))"

subsection \<open>Reading the znode data source\<close>

definition dataSourceZNodeRead ::
  "Provider \<Rightarrow> ResourceData \<Rightarrow> Client \<Rightarrow> (ResourceData \<times> Client \<times> Diagnostics) outcome" where
  "dataSourceZNodeRead env rscData zkClient =
     (case asString (Get_rd rscData ''path'') of
        None \<Rightarrow> Panic
      | Some znodePath \<Rightarrow>
          (case Read zkClient znodePath of
             (Inl err, zkClient') \<Rightarrow>
               Returned (rscData, zkClient',
                 Errorf (''Unable read ZNode from '' @ quoted znodePath @ '': '' @ message err))
           | (Inr znode, zkClient') \<Rightarrow>
               (case setAttributesFromZNode env (SetId rscData (Path znode)) znode [] of
                  (rscData', diags) \<Rightarrow> Returned (rscData', zkClient', diags))))"

subsection \<open>The sequential suffix\<close>

definition isDigit :: "char \<Rightarrow> bool" where
  "isDigit ch = (ch \<in> set ''0123456789'')"

text \<open>
  Modelled from the spec: the sequential suffix, a fixed-width run of exactly 10 decimal
  digits (the format \<open>%010d\<close>) that ZooKeeper appends to the prefix, and what it is
  for a path to end in one.
\<close>

definition isSequentialSuffix :: "string \<Rightarrow> bool" where
  "isSequentialSuffix s = (length s = 10 \<and> list_all isDigit s)"

definition hasSequentialSuffix :: "string \<Rightarrow> bool" where
  "hasSequentialSuffix path =
     (10 \<le> length path \<and> isSequentialSuffix (drop (length path - 10) path))"

text \<open>
  Modelled from the spec: what the external sequential create guarantees of the path it
  returns for a prefix: the prefix, followed by a sequential suffix.
\<close>

definition isSequentialPathOf :: "string \<Rightarrow> string \<Rightarrow> bool" where
  "isSequentialPathOf pathPrefix path =
     (take (length pathPrefix) path = pathPrefix \<and>
      isSequentialSuffix (drop (length pathPrefix) path))"

text \<open>
  Modelled from the spec: \<open>client.RemoveSequentialSuffix\<close>, which is not among the
  sources. The spec defines it on a path that ends in a run of exactly 10 decimal digits:
  that run is stripped. For any other path the spec leaves the result open ("whatever the
  string-stripping produces"), so the model takes that part as the parameter
  \<open>malformed\<close> and every statement below holds for each choice of it.
\<close>

definition RemoveSequentialSuffix :: "(string \<Rightarrow> string) \<Rightarrow> string \<Rightarrow> string" where
  "RemoveSequentialSuffix malformed path =
     (if hasSequentialSuffix path then take (length path - 10) path else malformed path)"

subsection \<open>Import of a sequential znode\<close>

text \<open>
  \<open>resourceSeqZNodeImport\<close> returns the slice holding the one pointer it was given, or
  \<open>nil\<close> and the error of the write. The model returns the resource data and the client
  as the call leaves them, then the Go result.
\<close>

definition resourceSeqZNodeImport ::
  "(string \<Rightarrow> string) \<Rightarrow> ResourceData \<Rightarrow> Client \<Rightarrow>
     ResourceData \<times> Client \<times> (go_error + ResourceData list)" where
  "resourceSeqZNodeImport malformed rscData prvClient =
     (case Set_rd rscData ''path_prefix''
             (VString (RemoveSequentialSuffix malformed (Id_rd rscData))) of
        Inl err \<Rightarrow> (rscData, prvClient, Inl err)
      | Inr rscData' \<Rightarrow> (rscData', prvClient, Inr [rscData']))"

subsection \<open>The host's rules for ForceNew and ConflictsWith\<close>

text \<open>
  Modelled from the spec: the host's planning rule. The plugin SDK, an external
  collaborator, decides what a changed configuration does to a resource; the spec words
  the rule as "changing it forces resource replacement, never an in-place update". A
  change of an attribute whose schema has \<open>ForceNew\<close> makes the plan a replacement; any
  other change is an update in place.
\<close>

type_synonym config = "string \<rightharpoonup> fvalue"

definition RequiresNew :: "SchemaMap \<Rightarrow> config \<Rightarrow> config \<Rightarrow> bool" where
  "RequiresNew sm old new = list_ex (\<lambda>(key, s). ForceNew s \<and> old key \<noteq> new key) sm"

datatype PlanAction = NoOp | UpdateInPlace | Replace

definition planAction :: "SchemaMap \<Rightarrow> config \<Rightarrow> config \<Rightarrow> PlanAction" where
  "planAction sm old new =
     (if RequiresNew sm old new then Replace
      else if list_ex (\<lambda>(key, s). old key \<noteq> new key) sm then UpdateInPlace
      else NoOp)"

text \<open>
  Modelled from the spec: the input-validation boundary of the external schema layer. An
  attribute that is set in the configuration is refused when an attribute it conflicts
  with is set as well, a required attribute when it is not set; the host runs the create
  function only on a configuration that validation accepts.
\<close>

definition validateConflictingAttributes :: "string \<Rightarrow> Schema \<Rightarrow> config \<Rightarrow> go_error option" where
  "validateConflictingAttributes key s c =
     (case filter (\<lambda>other. c other \<noteq> None) (ConflictsWith s) of
        [] \<Rightarrow> None
      | other # _ \<Rightarrow> Some (GoError (quoted key @ '': conflicts with '' @ other)))"

definition validateAttribute :: "config \<Rightarrow> string \<times> Schema \<Rightarrow> go_error list" where
  "validateAttribute c entry =
     (case entry of (key, s) \<Rightarrow>
        (case c key of
           None \<Rightarrow> if Required s then [GoError (quoted key @ '': required field is not set'')] else []
         | Some _ \<Rightarrow>
             (case validateConflictingAttributes key s c of None \<Rightarrow> [] | Some err \<Rightarrow> [err])))"

definition validateSchemaMap :: "SchemaMap \<Rightarrow> config \<Rightarrow> go_error list" where
  "validateSchemaMap sm c = concat (map (validateAttribute c) sm)"

definition hostCreate ::
  "SchemaMap \<Rightarrow> (ResourceData \<Rightarrow> Client \<Rightarrow> (ResourceData \<times> Client \<times> Diagnostics) outcome) \<Rightarrow>
     config \<Rightarrow> Client \<Rightarrow> go_error list + (ResourceData \<times> Client \<times> Diagnostics) outcome" where
  "hostCreate sm create c zkClient =
     (case validateSchemaMap sm c of
        [] \<Rightarrow> Inr (create \<lparr>Id_rd = [], attrs = c, schema = sm, isNewResource = False\<rparr> zkClient)
      | err # errs \<Rightarrow> Inl (err # errs))"

subsection \<open>Concrete values, for running the model\<close>

text \<open>
  An instance of the parameters of package \<open>provider\<close>: the content is the attribute
  \<open>data\<close>, and the mapper writes \<open>path\<close> and \<open>data\<close> back, adding a diagnostic for a
  refused write.
\<close>

definition statSchemaValue :: Schema where
  "statSchemaValue = \<lparr>Type = TypeMap, Optional = False, Required = False, Computed = True,
     ForceNew = False, ConflictsWith = [], Elem = Some TypeInt\<rparr>"

definition writeAttr :: "string \<Rightarrow> fvalue \<Rightarrow> ResourceData \<times> Diagnostics \<Rightarrow> ResourceData \<times> Diagnostics" where
  "writeAttr key v st =
     (case st of (d, diags) \<Rightarrow>
        (case Set_rd d key v of Inl err \<Rightarrow> (d, diags @ FromErr err) | Inr d' \<Rightarrow> (d', diags)))"

definition providerValue :: Provider where
  "providerValue =
     \<lparr>getDataBytesFromResourceData =
        (\<lambda>d. case asString (Get_rd d ''data'') of
                None \<Rightarrow> Inl (GoError ''data is not a string'')
              | Some text \<Rightarrow> Inr text),
      setAttributesFromZNode =
        (\<lambda>d znode diags.
           writeAttr ''data'' (VString (Data znode))
             (writeAttr ''path'' (VString (Path znode)) (d, diags))),
      statSchema = statSchemaValue\<rparr>"

definition zookeeperValue :: Zookeeper where
  "zookeeperValue =
     \<lparr>fieldPathPrefix = ''path_prefix'', fieldData = ''data'', fieldPath = ''path'',
      fieldStat = ''stat'',
      getFieldDataFromResourceData =
        (\<lambda>d. case asString (Get_rd d ''data'') of None \<Rightarrow> [] | Some text \<Rightarrow> text),
      setResourceDataFromZNode =
        (\<lambda>d znode diags.
           writeAttr ''data'' (VString (Data znode))
             (writeAttr ''path'' (VString (Path znode)) (d, diags)))\<rparr>"

text \<open>Three services: one that creates the seventh child, one that refuses, and one
  that answers with a path under another parent.\<close>

definition servingClient :: Client where
  "servingClient =
     \<lparr>answerCreateSequential = (\<lambda>pathPrefix dat.
        Inr \<lparr>Path = pathPrefix @ ''0000000007'', Data = dat, Stat = []\<rparr>),
      answerRead = (\<lambda>path. Inr \<lparr>Path = path, Data = ''payload'', Stat = []\<rparr>),
      calls = []\<rparr>"

definition refusingClient :: Client where
  "refusingClient =
     \<lparr>answerCreateSequential = (\<lambda>pathPrefix dat. Inl (GoError ''zk: not authenticated'')),
      answerRead = (\<lambda>path. Inl (GoError ''zk: node does not exist'')),
      calls = []\<rparr>"

definition strayClient :: Client where
  "strayClient =
     \<lparr>answerCreateSequential = (\<lambda>pathPrefix dat.
        Inr \<lparr>Path = ''/elsewhere0000000001'', Data = dat, Stat = []\<rparr>),
      answerRead = (\<lambda>path. Inr \<lparr>Path = ''/chroot'' @ path, Data = ''payload'', Stat = []\<rparr>),
      calls = []\<rparr>"

definition seqZNodeData :: ResourceData where
  "seqZNodeData =
     \<lparr>Id_rd = [],
      attrs = [''path_prefix'' \<mapsto> VString ''/queue/item-'', ''data'' \<mapsto> VString ''job''],
      schema = resourceSeqZNode providerValue,
      isNewResource = False\<rparr>"

definition seqZNodeData_zk :: ResourceData where
  "seqZNodeData_zk = seqZNodeData\<lparr>schema := resourceSeqZNode_zk zookeeperValue\<rparr>"

definition importedData :: ResourceData where
  "importedData =
     \<lparr>Id_rd = ''/queue/item-0000000007'', attrs = Map.empty,
      schema = resourceSeqZNode providerValue, isNewResource = False\<rparr>"

definition znodeSourceData :: ResourceData where
  "znodeSourceData =
     \<lparr>Id_rd = [], attrs = [''path'' \<mapsto> VString ''/config/flags''],
      schema = datasourceZNode providerValue, isNewResource = False\<rparr>"

section \<open>Properties\<close>

subsection \<open>Recovering the prefix\<close>

lemma RemoveSequentialSuffix_sequential:
  "hasSequentialSuffix path \<Longrightarrow>
     RemoveSequentialSuffix malformed path = take (length path - 10) path"
  by (simp add: RemoveSequentialSuffix_def)

lemma isSequentialPathOf_length:
  assumes "isSequentialPathOf p path"
  shows "length path = length p + 10"
proof -
  from assms have "length (drop (length p) path) = 10"
    by (simp add: isSequentialPathOf_def isSequentialSuffix_def)
  then show ?thesis by simp
qed

lemma isSequentialPathOf_hasSequentialSuffix:
  assumes "isSequentialPathOf p path"
  shows "hasSequentialSuffix path"
proof -
  have len: "length path = length p + 10"
    using assms by (rule isSequentialPathOf_length)
  from assms have "isSequentialSuffix (drop (length p) path)"
    by (simp add: isSequentialPathOf_def)
  with len show ?thesis by (simp add: hasSequentialSuffix_def)
qed

lemma RemoveSequentialSuffix_isSequentialPathOf:
  assumes "isSequentialPathOf p path"
  shows "RemoveSequentialSuffix malformed path = p"
proof -
  have len: "length path = length p + 10"
    using assms by (rule isSequentialPathOf_length)
  have "RemoveSequentialSuffix malformed path = take (length path - 10) path"
    using assms
    by (simp add: RemoveSequentialSuffix_sequential isSequentialPathOf_hasSequentialSuffix)
  also have "\<dots> = take (length p) path" by (simp add: len)
  also have "\<dots> = p" using assms by (simp add: isSequentialPathOf_def)
  finally show ?thesis .
qed

lemma Set_rd_string:
  assumes "map_of (schema d) key = Some s" and "Type s = TypeString"
  shows "Set_rd d key (VString v) = Inr (d\<lparr>attrs := (attrs d)(key \<mapsto> VString v)\<rparr>)"
  using assms by (simp add: Set_rd_def)

lemma import_writes_prefix:
  assumes "map_of (schema d) ''path_prefix'' = Some s" and "Type s = TypeString"
  shows "attrs (fst (resourceSeqZNodeImport malformed d c)) ''path_prefix''
         = Some (VString (RemoveSequentialSuffix malformed (Id_rd d)))"
  using assms by (simp add: resourceSeqZNodeImport_def Set_rd_string)

text \<open>
  Claim C5. The recover step used by import strips the trailing run of exactly 10 decimal
  digits from the path to give \<open>path_prefix\<close>: on a path that ends in such a run, the
  result is the path without its last 10 characters, these 10 characters are the
  sequential suffix, and import stores that result under \<open>path_prefix\<close>. Of a longer run
  of digits only the last 10 are stripped. Importing \<open>/queue/item-0000000007\<close> recovers
  \<open>/queue/item-\<close>, and importing \<open>/a/b0000000123\<close> recovers \<open>/a/b\<close>.
\<close>

theorem C5_recover_strips_ten_digits:
  "(hasSequentialSuffix path \<longrightarrow>
      RemoveSequentialSuffix malformed path = take (length path - 10) path
      \<and> RemoveSequentialSuffix malformed path @ drop (length path - 10) path = path
      \<and> isSequentialSuffix (drop (length path - 10) path))
   \<and> (hasSequentialSuffix (Id_rd d) \<and> map_of (schema d) ''path_prefix'' = Some s
        \<and> Type s = TypeString \<longrightarrow>
      attrs (fst (resourceSeqZNodeImport malformed d c)) ''path_prefix''
        = Some (VString (take (length (Id_rd d) - 10) (Id_rd d))))
   \<and> RemoveSequentialSuffix malformed ''/queue/item-0000000007'' = ''/queue/item-''
   \<and> RemoveSequentialSuffix malformed ''/a/b0000000123'' = ''/a/b''
   \<and> RemoveSequentialSuffix malformed ''/a/b1230000000123'' = ''/a/b123''"
proof -
  have general: "hasSequentialSuffix path \<longrightarrow>
      RemoveSequentialSuffix malformed path = take (length path - 10) path
      \<and> RemoveSequentialSuffix malformed path @ drop (length path - 10) path = path
      \<and> isSequentialSuffix (drop (length path - 10) path)"
    by (simp add: RemoveSequentialSuffix_sequential hasSequentialSuffix_def)
  have stored: "hasSequentialSuffix (Id_rd d) \<and> map_of (schema d) ''path_prefix'' = Some s
        \<and> Type s = TypeString \<longrightarrow>
      attrs (fst (resourceSeqZNodeImport malformed d c)) ''path_prefix''
        = Some (VString (take (length (Id_rd d) - 10) (Id_rd d)))"
    by (simp add: import_writes_prefix RemoveSequentialSuffix_sequential)
  have queue: "RemoveSequentialSuffix malformed ''/queue/item-0000000007'' = ''/queue/item-''"
    by (simp add: RemoveSequentialSuffix_def hasSequentialSuffix_def isSequentialSuffix_def
        isDigit_def)
  have ab: "RemoveSequentialSuffix malformed ''/a/b0000000123'' = ''/a/b''"
    by (simp add: RemoveSequentialSuffix_def hasSequentialSuffix_def isSequentialSuffix_def
        isDigit_def)
  have longer: "RemoveSequentialSuffix malformed ''/a/b1230000000123'' = ''/a/b123''"
    by (simp add: RemoveSequentialSuffix_def hasSequentialSuffix_def isSequentialSuffix_def
        isDigit_def)
  from general stored queue ab longer show ?thesis by simp
qed

theorem C5_recover_strips_ten_digits_witness:
  "hasSequentialSuffix ''/queue/item-0000000007''
   \<and> RemoveSequentialSuffix id ''/queue/item-0000000007'' = ''/queue/item-''
   \<and> map_of (schema importedData) ''path_prefix'' \<noteq> None
   \<and> attrs (fst (resourceSeqZNodeImport id importedData servingClient)) ''path_prefix''
       = Some (VString ''/queue/item-'')"
proof -
  have suffix: "hasSequentialSuffix ''/queue/item-0000000007''"
    by (simp add: hasSequentialSuffix_def isSequentialSuffix_def isDigit_def)
  have ident: "Id_rd importedData = ''/queue/item-0000000007''"
    by (simp add: importedData_def)
  have entry: "map_of (schema importedData) ''path_prefix''
      = Some \<lparr>Type = TypeString, Optional = False, Required = True, Computed = False,
           ForceNew = True, ConflictsWith = [], Elem = None\<rparr>"
    by (simp add: importedData_def resourceSeqZNode_def)
  from suffix ident entry
    C5_recover_strips_ten_digits [of "''/queue/item-0000000007''" id importedData
      "\<lparr>Type = TypeString, Optional = False, Required = True, Computed = False,
           ForceNew = True, ConflictsWith = [], Elem = None\<rparr>" servingClient]
  show ?thesis by simp
qed

subsection \<open>The round trip\<close>

text \<open>
  Claim C1. Round trip of the sequential identity: for every path prefix \<open>p\<close> that does
  not itself end in a run of 10 decimal digits, when the sequential create under \<open>p\<close>
  returns a znode whose path is \<open>p\<close> followed by a sequential suffix (what the external
  service guarantees), removing the sequential suffix from that path gives exactly \<open>p\<close>,
  and import, run on resource data whose identity is that path, stores \<open>p\<close> under
  \<open>path_prefix\<close>. The prefix is any string: no notion of validity is needed.
\<close>

theorem C1_round_trip:
  assumes "\<not> hasSequentialSuffix p"
    and "CreateSequential zkClient p dat = (Inr znode, zkClient')"
    and "isSequentialPathOf p (Path znode)"
  shows "RemoveSequentialSuffix malformed (Path znode) = p
         \<and> (\<forall>d c s. Id_rd d = Path znode \<and> map_of (schema d) ''path_prefix'' = Some s
                \<and> Type s = TypeString \<longrightarrow>
              attrs (fst (resourceSeqZNodeImport malformed d c)) ''path_prefix''
                = Some (VString p))"
proof -
  have recover: "RemoveSequentialSuffix malformed (Path znode) = p"
    using assms(3) by (rule RemoveSequentialSuffix_isSequentialPathOf)
  have "attrs (fst (resourceSeqZNodeImport malformed d c)) ''path_prefix'' = Some (VString p)"
    if "Id_rd d = Path znode" and "map_of (schema d) ''path_prefix'' = Some s"
      and "Type s = TypeString" for d c s
    using that recover by (simp add: import_writes_prefix)
  with recover show ?thesis by blast
qed

theorem C1_round_trip_witness:
  "\<not> hasSequentialSuffix ''/queue/item-''
   \<and> fst (CreateSequential servingClient ''/queue/item-'' ''job'')
       = Inr \<lparr>Path = ''/queue/item-0000000007'', Data = ''job'', Stat = []\<rparr>
   \<and> isSequentialPathOf ''/queue/item-'' ''/queue/item-0000000007''
   \<and> RemoveSequentialSuffix id ''/queue/item-0000000007'' = ''/queue/item-''
   \<and> attrs (fst (resourceSeqZNodeImport id importedData servingClient)) ''path_prefix''
       = Some (VString ''/queue/item-'')"
proof -
  let ?znode = "\<lparr>Path = ''/queue/item-0000000007'', Data = ''job'', Stat = []\<rparr>"
  let ?after = "servingClient\<lparr>calls := calls servingClient
                  @ [CreateSequentialCall ''/queue/item-'' ''job'']\<rparr>"
  have plain: "\<not> hasSequentialSuffix ''/queue/item-''"
    by (simp add: hasSequentialSuffix_def isSequentialSuffix_def isDigit_def)
  have created: "CreateSequential servingClient ''/queue/item-'' ''job'' = (Inr ?znode, ?after)"
    by (simp add: CreateSequential_def servingClient_def)
  have shape: "isSequentialPathOf ''/queue/item-'' (Path ?znode)"
    by (simp add: isSequentialPathOf_def isSequentialSuffix_def isDigit_def)
  have ident: "Id_rd importedData = Path ?znode"
    by (simp add: importedData_def)
  have entry: "map_of (schema importedData) ''path_prefix''
      = Some \<lparr>Type = TypeString, Optional = False, Required = True, Computed = False,
           ForceNew = True, ConflictsWith = [], Elem = None\<rparr>"
    by (simp add: importedData_def resourceSeqZNode_def)
  note law = C1_round_trip [OF plain created shape, of id]
  from law have recovered: "RemoveSequentialSuffix id ''/queue/item-0000000007'' = ''/queue/item-''"
    by simp
  from law ident entry
  have stored: "attrs (fst (resourceSeqZNodeImport id importedData servingClient)) ''path_prefix''
       = Some (VString ''/queue/item-'')"
    by (metis Schema.select_convs(1))
  from plain created shape recovered stored show ?thesis by simp
qed

subsection \<open>Import\<close>

lemma Set_rd_Inr:
  assumes "Set_rd d key v = Inr d'"
  shows "d' = d\<lparr>attrs := (attrs d)(key \<mapsto> v)\<rparr>"
  using assms by (auto simp: Set_rd_def split: option.splits if_splits)

lemma Set_rd_again:
  assumes "Set_rd d key v = Inr d'"
  shows "Set_rd d' key v = Inr d'"
proof -
  have d': "d' = d\<lparr>attrs := (attrs d)(key \<mapsto> v)\<rparr>"
    using assms by (rule Set_rd_Inr)
  from assms obtain s where "map_of (schema d) key = Some s" and "hasType v (Type s)"
    by (auto simp: Set_rd_def split: option.splits if_splits)
  then show ?thesis by (simp add: d' Set_rd_def)
qed

lemma import_success:
  assumes "Set_rd d ''path_prefix'' (VString (RemoveSequentialSuffix malformed (Id_rd d))) = Inr d'"
  shows "resourceSeqZNodeImport malformed d c = (d', c, Inr [d'])"
  using assms by (simp add: resourceSeqZNodeImport_def)

lemma import_failure:
  assumes "Set_rd d ''path_prefix'' (VString (RemoveSequentialSuffix malformed (Id_rd d))) = Inl err"
  shows "resourceSeqZNodeImport malformed d c = (d, c, Inl err)"
  using assms by (simp add: resourceSeqZNodeImport_def)

text \<open>
  Claim C3. For every import identifier, import makes no call to the ZooKeeper client
  (the client, with its list of calls, is returned as it was given); it computes the path
  without its sequential suffix from the identifier and writes it to \<open>path_prefix\<close>;
  and it returns an error exactly when that write fails, the error being the one of the
  write.
\<close>

theorem C3_import_no_client_call_error_iff_write_fails:
  "fst (snd (resourceSeqZNodeImport malformed d c)) = c
   \<and> calls (fst (snd (resourceSeqZNodeImport malformed d c))) = calls c
   \<and> isl (snd (snd (resourceSeqZNodeImport malformed d c)))
       = isl (Set_rd d ''path_prefix'' (VString (RemoveSequentialSuffix malformed (Id_rd d))))
   \<and> (\<forall>err. (snd (snd (resourceSeqZNodeImport malformed d c)) = Inl err)
         = (Set_rd d ''path_prefix'' (VString (RemoveSequentialSuffix malformed (Id_rd d)))
            = Inl err))
   \<and> fst (resourceSeqZNodeImport malformed d c)
       = (case Set_rd d ''path_prefix'' (VString (RemoveSequentialSuffix malformed (Id_rd d))) of
            Inl err \<Rightarrow> d | Inr d' \<Rightarrow> d')"
proof (cases "Set_rd d ''path_prefix'' (VString (RemoveSequentialSuffix malformed (Id_rd d)))")
  case (Inl err)
  then show ?thesis by (simp add: import_failure)
next
  case (Inr d')
  then show ?thesis by (simp add: import_success)
qed

theorem C3_import_no_client_call_error_iff_write_fails_witness:
  "resourceSeqZNodeImport id importedData strayClient
     = (importedData\<lparr>attrs := [''path_prefix'' \<mapsto> VString ''/queue/item-'']\<rparr>, strayClient,
        Inr [importedData\<lparr>attrs := [''path_prefix'' \<mapsto> VString ''/queue/item-'']\<rparr>])
   \<and> calls (fst (snd (resourceSeqZNodeImport id importedData strayClient))) = []
   \<and> Set_rd znodeSourceData ''path_prefix'' (VString (RemoveSequentialSuffix id []))
       = Inl (GoError ''Invalid address to set: path_prefix'')
   \<and> snd (snd (resourceSeqZNodeImport id znodeSourceData refusingClient))
       = Inl (GoError ''Invalid address to set: path_prefix'')
   \<and> calls (fst (snd (resourceSeqZNodeImport id znodeSourceData refusingClient))) = []"
proof -
  have recovered: "RemoveSequentialSuffix id (Id_rd importedData) = ''/queue/item-''"
    by (simp add: importedData_def RemoveSequentialSuffix_def hasSequentialSuffix_def
        isSequentialSuffix_def isDigit_def)
  have written: "Set_rd importedData ''path_prefix'' (VString ''/queue/item-'')
      = Inr (importedData\<lparr>attrs := [''path_prefix'' \<mapsto> VString ''/queue/item-'']\<rparr>)"
    by (simp add: Set_rd_def importedData_def resourceSeqZNode_def)
  have refused: "Set_rd znodeSourceData ''path_prefix''
        (VString (RemoveSequentialSuffix id (Id_rd znodeSourceData)))
      = Inl (GoError ''Invalid address to set: path_prefix'')"
    by (simp add: Set_rd_def znodeSourceData_def datasourceZNode_def)
  have empty: "Id_rd znodeSourceData = []"
    by (simp add: znodeSourceData_def)
  have quiet: "calls strayClient = []" "calls refusingClient = []"
    by (simp_all add: strayClient_def refusingClient_def)
  note good = C3_import_no_client_call_error_iff_write_fails [of id importedData strayClient]
  note bad = C3_import_no_client_call_error_iff_write_fails [of id znodeSourceData refusingClient]
  have first: "resourceSeqZNodeImport id importedData strayClient
     = (importedData\<lparr>attrs := [''path_prefix'' \<mapsto> VString ''/queue/item-'']\<rparr>, strayClient,
        Inr [importedData\<lparr>attrs := [''path_prefix'' \<mapsto> VString ''/queue/item-'']\<rparr>])"
    using recovered written by (simp add: import_success)
  have second: "snd (snd (resourceSeqZNodeImport id znodeSourceData refusingClient))
       = Inl (GoError ''Invalid address to set: path_prefix'')"
    using bad refused by simp
  from good bad first second refused empty quiet show ?thesis by simp
qed

text \<open>
  Claim C6. Import is idempotent and deterministic. Importing again, on the resource data
  and the client that the first import left, gives the result of the first import over
  again (the same state, the same returned records, the same error when the write was
  refused), so \<open>path_prefix\<close> holds the same value after two imports as after one. The
  value depends on the identifier alone: two imports of the same identifier that both
  write store the same \<open>path_prefix\<close>, whatever else their resource data and clients
  hold.
\<close>

theorem C6_import_idempotent:
  "resourceSeqZNodeImport malformed
       (fst (resourceSeqZNodeImport malformed d c))
       (fst (snd (resourceSeqZNodeImport malformed d c)))
     = resourceSeqZNodeImport malformed d c
   \<and> attrs (fst (resourceSeqZNodeImport malformed
                    (fst (resourceSeqZNodeImport malformed d c))
                    (fst (snd (resourceSeqZNodeImport malformed d c))))) ''path_prefix''
       = attrs (fst (resourceSeqZNodeImport malformed d c)) ''path_prefix''
   \<and> (Id_rd d2 = Id_rd d
        \<and> \<not> isl (snd (snd (resourceSeqZNodeImport malformed d c)))
        \<and> \<not> isl (snd (snd (resourceSeqZNodeImport malformed d2 c2))) \<longrightarrow>
      attrs (fst (resourceSeqZNodeImport malformed d2 c2)) ''path_prefix''
        = attrs (fst (resourceSeqZNodeImport malformed d c)) ''path_prefix'')"
proof -
  let ?v = "\<lambda>d. VString (RemoveSequentialSuffix malformed (Id_rd d))"
  have again: "resourceSeqZNodeImport malformed
       (fst (resourceSeqZNodeImport malformed d c))
       (fst (snd (resourceSeqZNodeImport malformed d c)))
     = resourceSeqZNodeImport malformed d c"
  proof (cases "Set_rd d ''path_prefix'' (?v d)")
    case (Inl err)
    then show ?thesis by (simp add: import_failure)
  next
    case (Inr d')
    then have "d' = d\<lparr>attrs := (attrs d)(''path_prefix'' \<mapsto> ?v d)\<rparr>"
      by (rule Set_rd_Inr)
    then have same_id: "Id_rd d' = Id_rd d" by simp
    from Inr have "Set_rd d' ''path_prefix'' (?v d) = Inr d'"
      by (rule Set_rd_again)
    with same_id have "resourceSeqZNodeImport malformed d' c = (d', c, Inr [d'])"
      by (simp add: import_success)
    with Inr show ?thesis by (simp add: import_success)
  qed
  have written: "attrs (fst (resourceSeqZNodeImport malformed x y)) ''path_prefix''
      = Some (?v x)"
    if "\<not> isl (snd (snd (resourceSeqZNodeImport malformed x y)))" for x y
  proof (cases "Set_rd x ''path_prefix'' (?v x)")
    case (Inl err)
    with that show ?thesis by (simp add: import_failure)
  next
    case (Inr x')
    then have "x' = x\<lparr>attrs := (attrs x)(''path_prefix'' \<mapsto> ?v x)\<rparr>"
      by (rule Set_rd_Inr)
    with Inr show ?thesis by (simp add: import_success)
  qed
  have same: "attrs (fst (resourceSeqZNodeImport malformed d2 c2)) ''path_prefix''
        = attrs (fst (resourceSeqZNodeImport malformed d c)) ''path_prefix''"
    if "Id_rd d2 = Id_rd d"
      and "\<not> isl (snd (snd (resourceSeqZNodeImport malformed d c)))"
      and "\<not> isl (snd (snd (resourceSeqZNodeImport malformed d2 c2)))"
    using that by (simp add: written)
  from again same show ?thesis by simp
qed

theorem C6_import_idempotent_witness:
  "attrs (fst (resourceSeqZNodeImport id importedData servingClient)) ''path_prefix''
     = Some (VString ''/queue/item-'')
   \<and> resourceSeqZNodeImport id
       (fst (resourceSeqZNodeImport id importedData servingClient))
       (fst (snd (resourceSeqZNodeImport id importedData servingClient)))
     = resourceSeqZNodeImport id importedData servingClient
   \<and> Id_rd (importedData\<lparr>isNewResource := True\<rparr>) = Id_rd importedData
   \<and> attrs (fst (resourceSeqZNodeImport id (importedData\<lparr>isNewResource := True\<rparr>) strayClient))
       ''path_prefix''
     = Some (VString ''/queue/item-'')"
proof -
  have recovered: "RemoveSequentialSuffix id (Id_rd importedData) = ''/queue/item-''"
    by (simp add: importedData_def RemoveSequentialSuffix_def hasSequentialSuffix_def
        isSequentialSuffix_def isDigit_def)
  have entry: "map_of (schema importedData) ''path_prefix''
      = Some \<lparr>Type = TypeString, Optional = False, Required = True, Computed = False,
           ForceNew = True, ConflictsWith = [], Elem = None\<rparr>"
    by (simp add: importedData_def resourceSeqZNode_def)
  have once: "attrs (fst (resourceSeqZNodeImport id importedData servingClient)) ''path_prefix''
     = Some (VString ''/queue/item-'')"
    using entry recovered by (simp add: import_writes_prefix)
  have ok1: "\<not> isl (snd (snd (resourceSeqZNodeImport id importedData servingClient)))"
    using entry by (simp add: resourceSeqZNodeImport_def Set_rd_string)
  have ok2: "\<not> isl (snd (snd (resourceSeqZNodeImport id
                (importedData\<lparr>isNewResource := True\<rparr>) strayClient)))"
    using entry by (simp add: resourceSeqZNodeImport_def Set_rd_def)
  note law = C6_import_idempotent [of id importedData servingClient
      "importedData\<lparr>isNewResource := True\<rparr>" strayClient]
  from law once ok1 ok2 show ?thesis by simp
qed

text \<open>
  Claim C10. Frame of import: when import succeeds, it returns exactly one record, the
  record it was given as the write left it; the identifier, every attribute other than
  \<open>path_prefix\<close>, the schema and the new-resource mark of that record are as before,
  and so is the client.
\<close>

theorem C10_import_frame:
  assumes "resourceSeqZNodeImport malformed d c = (d', c', Inr rs)"
  shows "rs = [d'] \<and> length rs = 1
         \<and> d' = d\<lparr>attrs := (attrs d)(''path_prefix'' \<mapsto>
                     VString (RemoveSequentialSuffix malformed (Id_rd d)))\<rparr>
         \<and> Id_rd d' = Id_rd d
         \<and> (\<forall>key. key \<noteq> ''path_prefix'' \<longrightarrow> attrs d' key = attrs d key)
         \<and> schema d' = schema d
         \<and> isNewResource d' = isNewResource d
         \<and> c' = c"
proof (cases "Set_rd d ''path_prefix'' (VString (RemoveSequentialSuffix malformed (Id_rd d)))")
  case (Inl err)
  with assms show ?thesis by (simp add: import_failure)
next
  case (Inr x)
  then have x: "x = d\<lparr>attrs := (attrs d)(''path_prefix'' \<mapsto>
                     VString (RemoveSequentialSuffix malformed (Id_rd d)))\<rparr>"
    by (rule Set_rd_Inr)
  from Inr have "resourceSeqZNodeImport malformed d c = (x, c, Inr [x])"
    by (rule import_success)
  with assms have "d' = x \<and> c' = c \<and> rs = [x]" by auto
  with x show ?thesis by simp
qed

theorem C10_import_frame_witness:
  "resourceSeqZNodeImport id (seqZNodeData\<lparr>Id_rd := ''/a/b0000000123''\<rparr>) servingClient
     = (seqZNodeData\<lparr>Id_rd := ''/a/b0000000123'',
          attrs := [''path_prefix'' \<mapsto> VString ''/a/b'', ''data'' \<mapsto> VString ''job'']\<rparr>,
        servingClient,
        Inr [seqZNodeData\<lparr>Id_rd := ''/a/b0000000123'',
          attrs := [''path_prefix'' \<mapsto> VString ''/a/b'', ''data'' \<mapsto> VString ''job'']\<rparr>])
   \<and> attrs (seqZNodeData\<lparr>Id_rd := ''/a/b0000000123''\<rparr>) ''data'' = Some (VString ''job'')
   \<and> attrs (seqZNodeData\<lparr>Id_rd := ''/a/b0000000123'',
          attrs := [''path_prefix'' \<mapsto> VString ''/a/b'', ''data'' \<mapsto> VString ''job'']\<rparr>) ''data''
       = Some (VString ''job'')"
proof -
  let ?d = "seqZNodeData\<lparr>Id_rd := ''/a/b0000000123''\<rparr>"
  let ?d' = "seqZNodeData\<lparr>Id_rd := ''/a/b0000000123'',
          attrs := [''path_prefix'' \<mapsto> VString ''/a/b'', ''data'' \<mapsto> VString ''job'']\<rparr>"
  have recovered: "RemoveSequentialSuffix id ''/a/b0000000123'' = ''/a/b''"
    by (simp add: RemoveSequentialSuffix_def hasSequentialSuffix_def
        isSequentialSuffix_def isDigit_def)
  have maps: "(attrs seqZNodeData)(''path_prefix'' \<mapsto> VString ''/a/b'')
      = [''path_prefix'' \<mapsto> VString ''/a/b'', ''data'' \<mapsto> VString ''job'']"
    by (auto simp: seqZNodeData_def)
  have run: "resourceSeqZNodeImport id ?d servingClient = (?d', servingClient, Inr [?d'])"
    using recovered maps
    by (simp add: resourceSeqZNodeImport_def Set_rd_def seqZNodeData_def resourceSeqZNode_def)
  from C10_import_frame [OF run] run show ?thesis
    by (simp add: seqZNodeData_def)
qed

subsection \<open>Create\<close>

lemma create_failure:
  assumes "asString (Get_rd d ''path_prefix'') = Some p"
    and "getDataBytesFromResourceData env d = Inr dat"
    and "fst (CreateSequential zk p dat) = Inl err"
  shows "resourceSeqZNodeCreate env d zk
       = Returned (d, zk\<lparr>calls := calls zk @ [CreateSequentialCall p dat]\<rparr>,
           [\<lparr>Severity = Error,
             Summary = ''Failed to create Sequential ZNode '' @ quoted p @ '': '' @ message err,
             Detail = []\<rparr>])"
  using assms by (simp add: resourceSeqZNodeCreate_def CreateSequential_def Errorf_def)

lemma create_failure_zk:
  assumes "asString (Get_rd d (fieldPathPrefix pkg)) = Some p"
    and "fst (CreateSequential zk p (getFieldDataFromResourceData pkg d)) = Inl err"
  shows "resourceSeqZNodeCreate_zk pkg d zk
       = Returned (d,
           zk\<lparr>calls := calls zk
                 @ [CreateSequentialCall p (getFieldDataFromResourceData pkg d)]\<rparr>,
           [\<lparr>Severity = Error,
             Summary = ''Failed to create Sequential ZNode '' @ quoted p @ '': '' @ message err,
             Detail = []\<rparr>])"
  using assms by (simp add: resourceSeqZNodeCreate_zk_def CreateSequential_def)

lemma create_success:
  assumes "asString (Get_rd d ''path_prefix'') = Some p"
    and "getDataBytesFromResourceData env d = Inr dat"
    and "fst (CreateSequential zk p dat) = Inr znode"
  shows "resourceSeqZNodeCreate env d zk
       = Returned
           (fst (setAttributesFromZNode env (MarkNewResource (SetId d (Path znode))) znode []),
            zk\<lparr>calls := calls zk @ [CreateSequentialCall p dat]\<rparr>,
            snd (setAttributesFromZNode env (MarkNewResource (SetId d (Path znode))) znode []))"
  using assms
  by (simp add: resourceSeqZNodeCreate_def CreateSequential_def split: prod.splits)

text \<open>
  Claim C4. If the external sequential create fails, the create function assigns no
  identity and populates no attribute (the resource data is returned as it was given:
  same identifier, same attributes, not marked new), and it returns exactly one
  diagnostic, an error whose summary holds the supplied path prefix, between apostrophes,
  and the message of the underlying error. The client was called once. This holds of the
  function in package \<open>provider\<close> and of the one in package \<open>zookeeper\<close>.
\<close>

theorem C4_create_failure_one_diagnostic:
  "(asString (Get_rd d ''path_prefix'') = Some p
      \<and> getDataBytesFromResourceData env d = Inr dat
      \<and> fst (CreateSequential zk p dat) = Inl err \<longrightarrow>
    resourceSeqZNodeCreate env d zk
      = Returned (d, zk\<lparr>calls := calls zk @ [CreateSequentialCall p dat]\<rparr>,
          [\<lparr>Severity = Error,
            Summary = ''Failed to create Sequential ZNode '' @ quoted p @ '': '' @ message err,
            Detail = []\<rparr>]))
   \<and> (asString (Get_rd d (fieldPathPrefix pkg)) = Some p
      \<and> fst (CreateSequential zk p (getFieldDataFromResourceData pkg d)) = Inl err \<longrightarrow>
    resourceSeqZNodeCreate_zk pkg d zk
      = Returned (d,
          zk\<lparr>calls := calls zk
                @ [CreateSequentialCall p (getFieldDataFromResourceData pkg d)]\<rparr>,
          [\<lparr>Severity = Error,
            Summary = ''Failed to create Sequential ZNode '' @ quoted p @ '': '' @ message err,
            Detail = []\<rparr>]))"
  by (simp add: create_failure create_failure_zk)

theorem C4_create_failure_one_diagnostic_witness:
  "fst (CreateSequential refusingClient ''/queue/item-'' ''job'')
     = Inl (GoError ''zk: not authenticated'')
   \<and> resourceSeqZNodeCreate providerValue seqZNodeData refusingClient
     = Returned (seqZNodeData,
         refusingClient\<lparr>calls := [CreateSequentialCall ''/queue/item-'' ''job'']\<rparr>,
         [\<lparr>Severity = Error,
           Summary = ''Failed to create Sequential ZNode '' @ quoted ''/queue/item-''
                     @ '': zk: not authenticated'',
           Detail = []\<rparr>])
   \<and> resourceSeqZNodeCreate_zk zookeeperValue seqZNodeData_zk refusingClient
     = Returned (seqZNodeData_zk,
         refusingClient\<lparr>calls := [CreateSequentialCall ''/queue/item-'' ''job'']\<rparr>,
         [\<lparr>Severity = Error,
           Summary = ''Failed to create Sequential ZNode '' @ quoted ''/queue/item-''
                     @ '': zk: not authenticated'',
           Detail = []\<rparr>])
   \<and> Id_rd seqZNodeData = [] \<and> \<not> isNewResource seqZNodeData"
proof -
  have prefix: "asString (Get_rd seqZNodeData ''path_prefix'') = Some ''/queue/item-''"
    by (simp add: Get_rd_def seqZNodeData_def resourceSeqZNode_def)
  have prefix_zk: "asString (Get_rd seqZNodeData_zk (fieldPathPrefix zookeeperValue))
      = Some ''/queue/item-''"
    by (simp add: Get_rd_def seqZNodeData_zk_def seqZNodeData_def resourceSeqZNode_zk_def
        zookeeperValue_def)
  have content: "getDataBytesFromResourceData providerValue seqZNodeData = Inr ''job''"
    by (simp add: providerValue_def Get_rd_def seqZNodeData_def resourceSeqZNode_def)
  have content_zk: "getFieldDataFromResourceData zookeeperValue seqZNodeData_zk = ''job''"
    by (simp add: Get_rd_def seqZNodeData_zk_def seqZNodeData_def resourceSeqZNode_zk_def
        zookeeperValue_def)
  have refused: "fst (CreateSequential refusingClient ''/queue/item-'' ''job'')
      = Inl (GoError ''zk: not authenticated'')"
    by (simp add: CreateSequential_def refusingClient_def)
  have quiet: "calls refusingClient = []"
    by (simp add: refusingClient_def)
  have fresh: "Id_rd seqZNodeData = [] \<and> \<not> isNewResource seqZNodeData"
    by (simp add: seqZNodeData_def)
  note law = C4_create_failure_one_diagnostic
      [of seqZNodeData "''/queue/item-''" providerValue "''job''" refusingClient
        "GoError ''zk: not authenticated''" zookeeperValue]
  note law_zk = C4_create_failure_one_diagnostic
      [of seqZNodeData_zk "''/queue/item-''" providerValue "''job''" refusingClient
        "GoError ''zk: not authenticated''" zookeeperValue]
  from law prefix content refused quiet
  have one: "resourceSeqZNodeCreate providerValue seqZNodeData refusingClient
     = Returned (seqZNodeData,
         refusingClient\<lparr>calls := [CreateSequentialCall ''/queue/item-'' ''job'']\<rparr>,
         [\<lparr>Severity = Error,
           Summary = ''Failed to create Sequential ZNode '' @ quoted ''/queue/item-''
                     @ '': zk: not authenticated'',
           Detail = []\<rparr>])"
    by simp
  from law_zk prefix_zk content_zk refused quiet
  have two: "resourceSeqZNodeCreate_zk zookeeperValue seqZNodeData_zk refusingClient
     = Returned (seqZNodeData_zk,
         refusingClient\<lparr>calls := [CreateSequentialCall ''/queue/item-'' ''job'']\<rparr>,
         [\<lparr>Severity = Error,
           Summary = ''Failed to create Sequential ZNode '' @ quoted ''/queue/item-''
                     @ '': zk: not authenticated'',
           Detail = []\<rparr>])"
    by simp
  from refused one two fresh show ?thesis by simp
qed

lemma writeAttr_Id: "Id_rd (fst (writeAttr key v st)) = Id_rd (fst st)"
proof (cases st)
  case (Pair d diags)
  show ?thesis
  proof (cases "Set_rd d key v")
    case (Inl err)
    with Pair show ?thesis by (simp add: writeAttr_def)
  next
    case (Inr d')
    then have "d' = d\<lparr>attrs := (attrs d)(key \<mapsto> v)\<rparr>" by (rule Set_rd_Inr)
    with Pair Inr show ?thesis by (simp add: writeAttr_def)
  qed
qed

lemma providerValue_keeps_Id:
  "Id_rd (fst (setAttributesFromZNode providerValue d znode diags)) = Id_rd d"
  by (simp add: providerValue_def writeAttr_Id)

lemma seqZNodeData_reads:
  "asString (Get_rd seqZNodeData ''path_prefix'') = Some ''/queue/item-''"
  "getDataBytesFromResourceData providerValue seqZNodeData = Inr ''job''"
  by (simp_all add: providerValue_def Get_rd_def seqZNodeData_def resourceSeqZNode_def)

text \<open>
  Claim C2, as stated, says that the create function verifies that the path returned by
  the external sequential create begins with the supplied prefix. It does not: a service
  that answers the prefix \<open>/queue/item-\<close> with the path \<open>/elsewhere0000000001\<close> is
  accepted, the create function returns without a panic and without any diagnostic, and
  that path is the identity.
\<close>

theorem C2_create_accepts_foreign_path_counterexample:
  "asString (Get_rd seqZNodeData ''path_prefix'') = Some ''/queue/item-''
   \<and> fst (CreateSequential strayClient ''/queue/item-'' ''job'')
       = Inr \<lparr>Path = ''/elsewhere0000000001'', Data = ''job'', Stat = []\<rparr>
   \<and> \<not> prefix ''/queue/item-'' ''/elsewhere0000000001''
   \<and> resourceSeqZNodeCreate providerValue seqZNodeData strayClient \<noteq> Panic
   \<and> snd (snd (result (resourceSeqZNodeCreate providerValue seqZNodeData strayClient))) = []
   \<and> Id_rd (fst (result (resourceSeqZNodeCreate providerValue seqZNodeData strayClient)))
       = ''/elsewhere0000000001''"
proof -
  let ?znode = "\<lparr>Path = ''/elsewhere0000000001'', Data = ''job'', Stat = []\<rparr>"
  have answered: "fst (CreateSequential strayClient ''/queue/item-'' ''job'') = Inr ?znode"
    by (simp add: CreateSequential_def strayClient_def)
  have foreign: "\<not> prefix ''/queue/item-'' ''/elsewhere0000000001''"
    by simp
  note run = create_success [OF seqZNodeData_reads answered]
  have returned: "resourceSeqZNodeCreate providerValue seqZNodeData strayClient \<noteq> Panic"
    by (simp add: run)
  have silent: "snd (snd (result (resourceSeqZNodeCreate providerValue seqZNodeData strayClient)))
      = []"
  proof -
    have "snd (setAttributesFromZNode providerValue
                 (MarkNewResource (SetId seqZNodeData (Path ?znode))) ?znode []) = []"
      by (simp add: providerValue_def writeAttr_def Set_rd_def SetId_def MarkNewResource_def
          seqZNodeData_def resourceSeqZNode_def)
    with run show ?thesis by simp
  qed
  have ident: "Id_rd (fst (result (resourceSeqZNodeCreate providerValue seqZNodeData strayClient)))
      = ''/elsewhere0000000001''"
    by (simp add: run providerValue_keeps_Id SetId_def MarkNewResource_def)
  from seqZNodeData_reads(1) answered foreign returned silent ident show ?thesis by simp
qed

text \<open>
  Claim C2, amended. At creation time the create function makes no check on the path that
  the external sequential create returns. Whenever that call succeeds, whatever path it
  returns, that path is passed verbatim to \<open>SetId\<close>: the resource data handed on to the
  mapper is the given one with that path as its identifier, marked new; and when the
  mapper leaves the identifier alone, the path is the identity that the create function
  leaves.
\<close>

theorem C2_create_records_returned_path:
  assumes "asString (Get_rd d ''path_prefix'') = Some p"
    and "getDataBytesFromResourceData env d = Inr dat"
    and "fst (CreateSequential zk p dat) = Inr znode"
  shows "resourceSeqZNodeCreate env d zk
       = Returned
           (fst (setAttributesFromZNode env (d\<lparr>Id_rd := Path znode, isNewResource := True\<rparr>)
                   znode []),
            zk\<lparr>calls := calls zk @ [CreateSequentialCall p dat]\<rparr>,
            snd (setAttributesFromZNode env (d\<lparr>Id_rd := Path znode, isNewResource := True\<rparr>)
                   znode []))
     \<and> MarkNewResource (SetId d (Path znode)) = d\<lparr>Id_rd := Path znode, isNewResource := True\<rparr>
     \<and> ((\<forall>x z diags. Id_rd (fst (setAttributesFromZNode env x z diags)) = Id_rd x) \<longrightarrow>
          Id_rd (fst (result (resourceSeqZNodeCreate env d zk))) = Path znode)"
proof -
  have handed: "MarkNewResource (SetId d (Path znode))
      = d\<lparr>Id_rd := Path znode, isNewResource := True\<rparr>"
    by (simp add: SetId_def MarkNewResource_def)
  note run = create_success [OF assms]
  from run handed show ?thesis by simp
qed

theorem C2_create_records_returned_path_witness:
  "fst (CreateSequential servingClient ''/queue/item-'' ''job'')
     = Inr \<lparr>Path = ''/queue/item-0000000007'', Data = ''job'', Stat = []\<rparr>
   \<and> Id_rd (fst (result (resourceSeqZNodeCreate providerValue seqZNodeData servingClient)))
       = ''/queue/item-0000000007''
   \<and> fst (snd (result (resourceSeqZNodeCreate providerValue seqZNodeData servingClient)))
       = servingClient\<lparr>calls := [CreateSequentialCall ''/queue/item-'' ''job'']\<rparr>"
proof -
  let ?znode = "\<lparr>Path = ''/queue/item-0000000007'', Data = ''job'', Stat = []\<rparr>"
  have answered: "fst (CreateSequential servingClient ''/queue/item-'' ''job'') = Inr ?znode"
    by (simp add: CreateSequential_def servingClient_def)
  have quiet: "calls servingClient = []"
    by (simp add: servingClient_def)
  have keeps: "\<forall>x z diags. Id_rd (fst (setAttributesFromZNode providerValue x z diags)) = Id_rd x"
    by (simp add: providerValue_keeps_Id)
  note law = C2_create_records_returned_path [OF seqZNodeData_reads answered]
  from law keeps
  have ident: "Id_rd (fst (result (resourceSeqZNodeCreate providerValue seqZNodeData servingClient)))
       = ''/queue/item-0000000007''"
    by simp
  from law quiet
  have client: "fst (snd (result (resourceSeqZNodeCreate providerValue seqZNodeData servingClient)))
       = servingClient\<lparr>calls := [CreateSequentialCall ''/queue/item-'' ''job'']\<rparr>"
    by simp
  from answered ident client show ?thesis by simp
qed

subsection \<open>Reading the data source\<close>

lemma read_failure:
  assumes "asString (Get_rd d ''path'') = Some path"
    and "fst (Read zk path) = Inl err"
  shows "dataSourceZNodeRead env d zk
       = Returned (d, zk\<lparr>calls := calls zk @ [ReadCall path]\<rparr>,
           [\<lparr>Severity = Error,
             Summary = ''Unable read ZNode from '' @ quoted path @ '': '' @ message err,
             Detail = []\<rparr>])"
  using assms by (simp add: dataSourceZNodeRead_def Read_def Errorf_def)

lemma read_success:
  assumes "asString (Get_rd d ''path'') = Some path"
    and "fst (Read zk path) = Inr znode"
  shows "dataSourceZNodeRead env d zk
       = Returned
           (fst (setAttributesFromZNode env (SetId d (Path znode)) znode []),
            zk\<lparr>calls := calls zk @ [ReadCall path]\<rparr>,
            snd (setAttributesFromZNode env (SetId d (Path znode)) znode []))"
  using assms by (simp add: dataSourceZNodeRead_def Read_def split: prod.splits)

text \<open>
  Claim C7. For every read of the data source: when the external read fails, the function
  returns exactly one diagnostic, an error whose summary names the requested path and holds
  the message of the underlying error, the resource data is as it was given, and the client
  was called once (no retry). When the external read succeeds, the client was called once
  as well, and the identifier is set to the path of the znode that the client returned,
  not to the requested path: that path is passed to \<open>SetId\<close> before the mapper runs, and
  it is the identifier the function leaves when the mapper leaves the identifier alone.
\<close>

theorem C7_data_source_read:
  "(asString (Get_rd d ''path'') = Some path \<and> fst (Read zk path) = Inl err \<longrightarrow>
      dataSourceZNodeRead env d zk
        = Returned (d, zk\<lparr>calls := calls zk @ [ReadCall path]\<rparr>,
            [\<lparr>Severity = Error,
              Summary = ''Unable read ZNode from '' @ quoted path @ '': '' @ message err,
              Detail = []\<rparr>]))
   \<and> (asString (Get_rd d ''path'') = Some path \<and> fst (Read zk path) = Inr znode \<longrightarrow>
      dataSourceZNodeRead env d zk
        = Returned
            (fst (setAttributesFromZNode env (d\<lparr>Id_rd := Path znode\<rparr>) znode []),
             zk\<lparr>calls := calls zk @ [ReadCall path]\<rparr>,
             snd (setAttributesFromZNode env (d\<lparr>Id_rd := Path znode\<rparr>) znode []))
      \<and> ((\<forall>x z diags. Id_rd (fst (setAttributesFromZNode env x z diags)) = Id_rd x) \<longrightarrow>
           Id_rd (fst (result (dataSourceZNodeRead env d zk))) = Path znode))"
proof -
  have handed: "SetId d (Path znode) = d\<lparr>Id_rd := Path znode\<rparr>"
    by (simp add: SetId_def)
  show ?thesis
    by (simp add: read_failure read_success handed)
qed

theorem C7_data_source_read_witness:
  "asString (Get_rd znodeSourceData ''path'') = Some ''/config/flags''
   \<and> fst (Read refusingClient ''/config/flags'') = Inl (GoError ''zk: node does not exist'')
   \<and> dataSourceZNodeRead providerValue znodeSourceData refusingClient
       = Returned (znodeSourceData, refusingClient\<lparr>calls := [ReadCall ''/config/flags'']\<rparr>,
           [\<lparr>Severity = Error,
             Summary = ''Unable read ZNode from '' @ quoted ''/config/flags''
                       @ '': zk: node does not exist'',
             Detail = []\<rparr>])
   \<and> fst (Read strayClient ''/config/flags'')
       = Inr \<lparr>Path = ''/chroot/config/flags'', Data = ''payload'', Stat = []\<rparr>
   \<and> Id_rd (fst (result (dataSourceZNodeRead providerValue znodeSourceData strayClient)))
       = ''/chroot/config/flags''
   \<and> calls (fst (snd (result (dataSourceZNodeRead providerValue znodeSourceData strayClient))))
       = [ReadCall ''/config/flags'']"
proof -
  let ?znode = "\<lparr>Path = ''/chroot/config/flags'', Data = ''payload'', Stat = []\<rparr>"
  have asked: "asString (Get_rd znodeSourceData ''path'') = Some ''/config/flags''"
    by (simp add: Get_rd_def znodeSourceData_def datasourceZNode_def)
  have refused: "fst (Read refusingClient ''/config/flags'')
      = Inl (GoError ''zk: node does not exist'')"
    by (simp add: Read_def refusingClient_def)
  have answered: "fst (Read strayClient ''/config/flags'') = Inr ?znode"
    by (simp add: Read_def strayClient_def)
  have quiet: "calls refusingClient = []" "calls strayClient = []"
    by (simp_all add: refusingClient_def strayClient_def)
  have keeps: "\<forall>x z diags. Id_rd (fst (setAttributesFromZNode providerValue x z diags)) = Id_rd x"
    by (simp add: providerValue_keeps_Id)
  note bad = C7_data_source_read [of znodeSourceData "''/config/flags''" refusingClient
      "GoError ''zk: node does not exist''" providerValue ?znode]
  note good = C7_data_source_read [of znodeSourceData "''/config/flags''" strayClient
      "GoError ''zk: node does not exist''" providerValue ?znode]
  from bad asked refused quiet
  have failed: "dataSourceZNodeRead providerValue znodeSourceData refusingClient
       = Returned (znodeSourceData, refusingClient\<lparr>calls := [ReadCall ''/config/flags'']\<rparr>,
           [\<lparr>Severity = Error,
             Summary = ''Unable read ZNode from '' @ quoted ''/config/flags''
                       @ '': zk: node does not exist'',
             Detail = []\<rparr>])"
    by simp
  from good asked answered keeps
  have ident: "Id_rd (fst (result (dataSourceZNodeRead providerValue znodeSourceData strayClient)))
       = ''/chroot/config/flags''"
    by simp
  from good asked answered quiet
  have once: "calls (fst (snd (result (dataSourceZNodeRead providerValue znodeSourceData
                strayClient)))) = [ReadCall ''/config/flags'']"
    by simp
  from asked refused failed answered ident once show ?thesis by simp
qed

subsection \<open>The schema of the sequential znode resource\<close>

lemma RequiresNew_entry:
  assumes "(key, s) \<in> set sm" and "ForceNew s" and "old key \<noteq> new key"
  shows "RequiresNew sm old new"
  using assms by (auto simp: RequiresNew_def list_ex_iff)

text \<open>
  Claim C8. \<open>path_prefix\<close> is immutable after creation. The schema of the sequential
  znode resource declares it a required string with \<open>ForceNew\<close>, in package
  \<open>provider\<close> and (under the name of the constant \<open>fieldPathPrefix\<close>) in package
  \<open>zookeeper\<close>; so, by the host's rule for \<open>ForceNew\<close>, every change of its value makes
  the plan a replacement of the resource, never an update in place.
\<close>

theorem C8_path_prefix_forces_replacement:
  "map_of (resourceSeqZNode env) ''path_prefix''
     = Some \<lparr>Type = TypeString, Optional = False, Required = True, Computed = False,
          ForceNew = True, ConflictsWith = [], Elem = None\<rparr>
   \<and> map_of (resourceSeqZNode_zk pkg) (fieldPathPrefix pkg)
     = Some \<lparr>Type = TypeString, Optional = False, Required = True, Computed = False,
          ForceNew = True, ConflictsWith = [], Elem = None\<rparr>
   \<and> (old ''path_prefix'' \<noteq> new ''path_prefix'' \<longrightarrow>
        planAction (resourceSeqZNode env) old new = Replace
        \<and> planAction (resourceSeqZNode env) old new \<noteq> UpdateInPlace)
   \<and> (old (fieldPathPrefix pkg) \<noteq> new (fieldPathPrefix pkg) \<longrightarrow>
        planAction (resourceSeqZNode_zk pkg) old new = Replace
        \<and> planAction (resourceSeqZNode_zk pkg) old new \<noteq> UpdateInPlace)"
proof -
  let ?s = "\<lparr>Type = TypeString, Optional = False, Required = True, Computed = False,
          ForceNew = True, ConflictsWith = [], Elem = None\<rparr>"
  have declared: "map_of (resourceSeqZNode env) ''path_prefix'' = Some ?s"
    by (simp add: resourceSeqZNode_def)
  have declared_zk: "map_of (resourceSeqZNode_zk pkg) (fieldPathPrefix pkg) = Some ?s"
    by (simp add: resourceSeqZNode_zk_def)
  have entry: "(''path_prefix'', ?s) \<in> set (resourceSeqZNode env)"
    by (simp add: resourceSeqZNode_def)
  have entry_zk: "(fieldPathPrefix pkg, ?s) \<in> set (resourceSeqZNode_zk pkg)"
    by (simp add: resourceSeqZNode_zk_def)
  have replaced: "planAction (resourceSeqZNode env) old new = Replace"
    if "old ''path_prefix'' \<noteq> new ''path_prefix''"
    using RequiresNew_entry [of "''path_prefix''" ?s "resourceSeqZNode env" old new] entry that
    by (simp add: planAction_def)
  have replaced_zk: "planAction (resourceSeqZNode_zk pkg) old new = Replace"
    if "old (fieldPathPrefix pkg) \<noteq> new (fieldPathPrefix pkg)"
    using RequiresNew_entry [of "fieldPathPrefix pkg" ?s "resourceSeqZNode_zk pkg" old new]
      entry_zk that
    by (simp add: planAction_def)
  from declared declared_zk replaced replaced_zk show ?thesis by simp
qed

theorem C8_path_prefix_forces_replacement_witness:
  "[''path_prefix'' \<mapsto> VString ''/queue/item-''] ''path_prefix''
     \<noteq> [''path_prefix'' \<mapsto> VString ''/queue/job-''] ''path_prefix''
   \<and> planAction (resourceSeqZNode providerValue)
        [''path_prefix'' \<mapsto> VString ''/queue/item-'']
        [''path_prefix'' \<mapsto> VString ''/queue/job-''] = Replace
   \<and> planAction (resourceSeqZNode_zk zookeeperValue)
        [''path_prefix'' \<mapsto> VString ''/queue/item-'']
        [''path_prefix'' \<mapsto> VString ''/queue/job-''] = Replace
   \<and> planAction (resourceSeqZNode providerValue)
        [''path_prefix'' \<mapsto> VString ''/queue/item-'', ''data'' \<mapsto> VString ''job'']
        [''path_prefix'' \<mapsto> VString ''/queue/item-'', ''data'' \<mapsto> VString ''task'']
       = UpdateInPlace"
proof -
  let ?old = "[''path_prefix'' \<mapsto> VString ''/queue/item-'']"
  let ?new = "[''path_prefix'' \<mapsto> VString ''/queue/job-'']"
  have changed: "?old ''path_prefix'' \<noteq> ?new ''path_prefix''"
    by simp
  have name: "fieldPathPrefix zookeeperValue = ''path_prefix''"
    by (simp add: zookeeperValue_def)
  note law = C8_path_prefix_forces_replacement [of providerValue zookeeperValue ?old ?new]
  from law changed name
  have one: "planAction (resourceSeqZNode providerValue) ?old ?new = Replace"
    and two: "planAction (resourceSeqZNode_zk zookeeperValue) ?old ?new = Replace"
    by simp_all
  have three: "planAction (resourceSeqZNode providerValue)
        [''path_prefix'' \<mapsto> VString ''/queue/item-'', ''data'' \<mapsto> VString ''job'']
        [''path_prefix'' \<mapsto> VString ''/queue/item-'', ''data'' \<mapsto> VString ''task'']
       = UpdateInPlace"
    by (simp add: planAction_def RequiresNew_def resourceSeqZNode_def providerValue_def
        statSchemaValue_def)
  from changed one two three show ?thesis by simp
qed

lemma validateSchemaMap_entry:
  assumes "(key, s) \<in> set sm" and "err \<in> set (validateAttribute c (key, s))"
  shows "err \<in> set (validateSchemaMap sm c)"
  using assms by (auto simp: validateSchemaMap_def)

lemma validateAttribute_conflict:
  assumes "c key \<noteq> None" and "ConflictsWith s = [other]" and "c other \<noteq> None"
  shows "validateAttribute c (key, s) = [GoError (quoted key @ '': conflicts with '' @ other)]"
  using assms
  by (auto simp: validateAttribute_def validateConflictingAttributes_def split: option.splits)

lemma hostCreate_refuses:
  assumes "err \<in> set (validateSchemaMap sm c)"
  shows "hostCreate sm create c zk = Inl (validateSchemaMap sm c)"
  using assms by (cases "validateSchemaMap sm c") (simp_all add: hostCreate_def)

text \<open>
  Claim C9. The input fields \<open>data\<close> and \<open>data_base64\<close> of the sequential znode
  resource are mutually exclusive: the schema declares each with \<open>ConflictsWith\<close> naming
  the other; so a configuration that sets both is refused by validation, with an error for
  each of the two, and the host returns these errors without running the create function,
  whatever that function is.
\<close>

theorem C9_data_conflicts_with_data_base64:
  "map_of (resourceSeqZNode env) ''data''
     = Some \<lparr>Type = TypeString, Optional = True, Required = False, Computed = True,
          ForceNew = False, ConflictsWith = [''data_base64''], Elem = None\<rparr>
   \<and> map_of (resourceSeqZNode env) ''data_base64''
     = Some \<lparr>Type = TypeString, Optional = True, Required = False, Computed = True,
          ForceNew = False, ConflictsWith = [''data''], Elem = None\<rparr>
   \<and> (c ''data'' \<noteq> None \<and> c ''data_base64'' \<noteq> None \<longrightarrow>
        GoError (quoted ''data'' @ '': conflicts with data_base64'')
          \<in> set (validateSchemaMap (resourceSeqZNode env) c)
        \<and> GoError (quoted ''data_base64'' @ '': conflicts with data'')
          \<in> set (validateSchemaMap (resourceSeqZNode env) c)
        \<and> hostCreate (resourceSeqZNode env) create c zk
          = Inl (validateSchemaMap (resourceSeqZNode env) c))"
proof -
  let ?data = "\<lparr>Type = TypeString, Optional = True, Required = False, Computed = True,
          ForceNew = False, ConflictsWith = [''data_base64''], Elem = None\<rparr>"
  let ?base64 = "\<lparr>Type = TypeString, Optional = True, Required = False, Computed = True,
          ForceNew = False, ConflictsWith = [''data''], Elem = None\<rparr>"
  have declared: "map_of (resourceSeqZNode env) ''data'' = Some ?data"
    "map_of (resourceSeqZNode env) ''data_base64'' = Some ?base64"
    by (simp_all add: resourceSeqZNode_def)
  have entries: "(''data'', ?data) \<in> set (resourceSeqZNode env)"
    "(''data_base64'', ?base64) \<in> set (resourceSeqZNode env)"
    by (simp_all add: resourceSeqZNode_def)
  have refused:
    "GoError (quoted ''data'' @ '': conflicts with data_base64'')
       \<in> set (validateSchemaMap (resourceSeqZNode env) c)
     \<and> GoError (quoted ''data_base64'' @ '': conflicts with data'')
       \<in> set (validateSchemaMap (resourceSeqZNode env) c)
     \<and> hostCreate (resourceSeqZNode env) create c zk
       = Inl (validateSchemaMap (resourceSeqZNode env) c)"
    if both: "c ''data'' \<noteq> None" "c ''data_base64'' \<noteq> None"
  proof -
    have "validateAttribute c (''data'', ?data)
        = [GoError (quoted ''data'' @ '': conflicts with '' @ ''data_base64'')]"
      using both by (intro validateAttribute_conflict) simp_all
    then have one: "GoError (quoted ''data'' @ '': conflicts with data_base64'')
        \<in> set (validateSchemaMap (resourceSeqZNode env) c)"
      using validateSchemaMap_entry [OF entries(1), of _ c] by simp
    have "validateAttribute c (''data_base64'', ?base64)
        = [GoError (quoted ''data_base64'' @ '': conflicts with '' @ ''data'')]"
      using both by (intro validateAttribute_conflict) simp_all
    then have two: "GoError (quoted ''data_base64'' @ '': conflicts with data'')
        \<in> set (validateSchemaMap (resourceSeqZNode env) c)"
      using validateSchemaMap_entry [OF entries(2), of _ c] by simp
    from one have "hostCreate (resourceSeqZNode env) create c zk
        = Inl (validateSchemaMap (resourceSeqZNode env) c)"
      by (rule hostCreate_refuses)
    with one two show ?thesis by simp
  qed
  from declared refused show ?thesis by simp
qed

theorem C9_data_conflicts_with_data_base64_witness:
  "validateSchemaMap (resourceSeqZNode providerValue)
       [''path_prefix'' \<mapsto> VString ''/queue/item-'', ''data'' \<mapsto> VString ''job'',
        ''data_base64'' \<mapsto> VString ''am9i'']
     = [GoError (quoted ''data'' @ '': conflicts with data_base64''),
        GoError (quoted ''data_base64'' @ '': conflicts with data'')]
   \<and> hostCreate (resourceSeqZNode providerValue) (resourceSeqZNodeCreate providerValue)
       [''path_prefix'' \<mapsto> VString ''/queue/item-'', ''data'' \<mapsto> VString ''job'',
        ''data_base64'' \<mapsto> VString ''am9i''] servingClient
     = Inl [GoError (quoted ''data'' @ '': conflicts with data_base64''),
            GoError (quoted ''data_base64'' @ '': conflicts with data'')]
   \<and> validateSchemaMap (resourceSeqZNode providerValue)
       [''path_prefix'' \<mapsto> VString ''/queue/item-'', ''data'' \<mapsto> VString ''job''] = []
   \<and> hostCreate (resourceSeqZNode providerValue) (resourceSeqZNodeCreate providerValue)
       [''path_prefix'' \<mapsto> VString ''/queue/item-'', ''data'' \<mapsto> VString ''job'']
       servingClient
     = Inr (resourceSeqZNodeCreate providerValue seqZNodeData servingClient)"
proof -
  let ?both = "[''path_prefix'' \<mapsto> VString ''/queue/item-'', ''data'' \<mapsto> VString ''job'',
        ''data_base64'' \<mapsto> VString ''am9i'']"
  let ?one = "[''path_prefix'' \<mapsto> VString ''/queue/item-'', ''data'' \<mapsto> VString ''job'']"
  have set_both: "?both ''data'' \<noteq> None" "?both ''data_base64'' \<noteq> None"
    by simp_all
  have errors: "validateSchemaMap (resourceSeqZNode providerValue) ?both
     = [GoError (quoted ''data'' @ '': conflicts with data_base64''),
        GoError (quoted ''data_base64'' @ '': conflicts with data'')]"
    by (simp add: validateSchemaMap_def validateAttribute_def validateConflictingAttributes_def
        resourceSeqZNode_def providerValue_def statSchemaValue_def)
  have accepted: "validateSchemaMap (resourceSeqZNode providerValue) ?one = []"
    by (simp add: validateSchemaMap_def validateAttribute_def validateConflictingAttributes_def
        resourceSeqZNode_def providerValue_def statSchemaValue_def)
  have built: "\<lparr>Id_rd = [], attrs = ?one, schema = resourceSeqZNode providerValue,
      isNewResource = False\<rparr> = seqZNodeData"
    by (simp add: seqZNodeData_def)
  have runs: "hostCreate (resourceSeqZNode providerValue) (resourceSeqZNodeCreate providerValue)
       ?one servingClient
     = Inr (resourceSeqZNodeCreate providerValue seqZNodeData servingClient)"
    using accepted built by (simp add: hostCreate_def)
  note law = C9_data_conflicts_with_data_base64
      [of providerValue ?both "resourceSeqZNodeCreate providerValue" servingClient]
  from law set_both errors
  have refused: "hostCreate (resourceSeqZNode providerValue) (resourceSeqZNodeCreate providerValue)
       ?both servingClient
     = Inl [GoError (quoted ''data'' @ '': conflicts with data_base64''),
            GoError (quoted ''data_base64'' @ '': conflicts with data'')]"
    by simp
  from errors refused accepted runs show ?thesis by simp
qed

end
